theory Spec2Isabelle
  imports Complex_Main "HOL-Library.Log_Nat"
begin

section \<open>JavaScript values\<close>

text \<open>
  The validator receives loosely typed data: the parsed JSON body of a request, or the
  values of the form. A number is a finite value, \<open>NaN\<close> or one of the two infinities.
  Finite values are rationals: every double is one and comparisons of doubles are exact.
  Where the program makes a number from a string, the value is rounded to the nearest
  double (\<open>round_double\<close> below). Negative zero is not told apart from zero.
  \<open>JUndefined\<close> is what reading a missing property gives.
\<close>

datatype jsnum = Fin rat | NaN | PosInf | NegInf

datatype jsval =
    JUndefined
  | JNull
  | JBool bool
  | JNum jsnum
  | JStr string
  | JArr "jsval list"
  | JObj "(string \<times> jsval) list"

text \<open>\<open>obj[key]\<close>: the property of an object, \<open>undefined\<close> when there is none.\<close>

fun jsget :: "jsval \<Rightarrow> string \<Rightarrow> jsval" where
  "jsget (JObj kvs) k = (case map_of kvs k of None \<Rightarrow> JUndefined | Some v \<Rightarrow> v)"
| "jsget _ k = JUndefined"

text \<open>\<open>key in obj\<close>.\<close>

fun has_key :: "jsval \<Rightarrow> string \<Rightarrow> bool" where
  "has_key (JObj kvs) k = (k \<in> set (map fst kvs))"
| "has_key _ k = False"

text \<open>\<open>v == null\<close>: true of \<open>null\<close> and of \<open>undefined\<close> only.\<close>

fun is_nullish :: "jsval \<Rightarrow> bool" where
  "is_nullish JUndefined = True"
| "is_nullish JNull = True"
| "is_nullish _ = False"

subsection \<open>Comparisons and integrality of numbers\<close>

text \<open>\<open>a < b\<close> on numbers: false whenever an operand is \<open>NaN\<close>.\<close>

fun num_less :: "jsnum \<Rightarrow> jsnum \<Rightarrow> bool" where
  "num_less NaN _ = False"
| "num_less _ NaN = False"
| "num_less (Fin a) (Fin b) = (a < b)"
| "num_less (Fin a) PosInf = True"
| "num_less (Fin a) NegInf = False"
| "num_less PosInf _ = False"
| "num_less NegInf NegInf = False"
| "num_less NegInf _ = True"

text \<open>\<open>Number.isInteger\<close> and \<open>Number.isFinite\<close>.\<close>

fun isInteger :: "jsnum \<Rightarrow> bool" where
  "isInteger (Fin q) = (q = of_int \<lfloor>q\<rfloor>)"
| "isInteger _ = False"

fun isFinite :: "jsnum \<Rightarrow> bool" where
  "isFinite (Fin q) = True"
| "isFinite _ = False"

fun num_neg :: "jsnum \<Rightarrow> jsnum" where
  "num_neg (Fin q) = Fin (- q)"
| "num_neg NaN = NaN"
| "num_neg PosInf = NegInf"
| "num_neg NegInf = PosInf"

subsection \<open>Rounding to a double\<close>

text \<open>
  The double nearest to a rational, ties to the even significand (IEEE 754 binary64):
  53 bits of significand, the smallest unit \<open>2 powi - 1074\<close>, infinity from
  \<open>2 powi 1024\<close> on. \<open>floor_log2 a\<close> is the exponent \<open>e\<close> with
  \<open>2 powi e \<le> a < 2 powi (e + 1)\<close>, from the bit lengths of numerator and denominator.
\<close>

definition floor_log2 :: "rat \<Rightarrow> int" where
  "floor_log2 a =
     (let (p, d) = quotient_of a;
          k = bitlen p - bitlen d
      in if 2 powi k \<le> a then k else k - 1)"

definition round_half_even :: "rat \<Rightarrow> int" where
  "round_half_even x =
     (let f = \<lfloor>x\<rfloor>; d = x - of_int f
      in if d < 1 / 2 then f else if 1 / 2 < d then f + 1 else if even f then f else f + 1)"

definition round_double :: "rat \<Rightarrow> jsnum" where
  "round_double q =
     (if q = 0 then Fin 0
      else
        let a = \<bar>q\<bar>;
            u = 2 powi (max (floor_log2 a) (- 1022) - 52);
            r = of_int (round_half_even (a / u)) * u
        in if 2 powi 1024 \<le> r then (if 0 < q then PosInf else NegInf)
           else Fin (if 0 < q then r else - r))"

subsection \<open>Strings as numbers\<close>

text \<open>
  White space and line terminators, as \<open>String.prototype.trim\<close> and \<open>Number\<close> strip
  them (the characters below code 256: tab, line feed, vertical tab, form feed, carriage
  return, space, no-break space).
\<close>

definition is_ws :: "char \<Rightarrow> bool" where
  "is_ws c = (of_char c \<in> {9, 10, 11, 12, 13, 32, 160 :: nat})"

definition trim :: "string \<Rightarrow> string" where
  "trim s = rev (dropWhile is_ws (rev (dropWhile is_ws s)))"

definition is_digit :: "char \<Rightarrow> bool" where
  "is_digit c = (48 \<le> (of_char c :: nat) \<and> (of_char c :: nat) \<le> 57)"

definition digit_val :: "char \<Rightarrow> nat" where
  "digit_val c = of_char c - 48"

text \<open>The value of a string of decimal digits, most significant first.\<close>

definition digits_value :: "string \<Rightarrow> int" where
  "digits_value ds = foldl (\<lambda>a c. 10 * a + int (digit_val c)) 0 ds"

text \<open>The value of a digit in a radix up to 16, if it is one.\<close>

definition radix_digit :: "nat \<Rightarrow> char \<Rightarrow> nat option" where
  "radix_digit r c =
     (let n = (of_char c :: nat);
          d = (if 48 \<le> n \<and> n \<le> 57 then Some (n - 48)
               else if 97 \<le> n \<and> n \<le> 102 then Some (n - 87)
               else if 65 \<le> n \<and> n \<le> 70 then Some (n - 55)
               else None)
      in case d of None \<Rightarrow> None | Some v \<Rightarrow> if v < r then Some v else None)"

fun radix_value :: "nat \<Rightarrow> int \<Rightarrow> string \<Rightarrow> int option" where
  "radix_value r acc [] = Some acc"
| "radix_value r acc (c # cs) =
     (case radix_digit r c of
        None \<Rightarrow> None
      | Some d \<Rightarrow> radix_value r (int r * acc + int d) cs)"

text \<open>
  \<open>0x\<close>, \<open>0o\<close> and \<open>0b\<close> literals (either case of the letter): \<open>None\<close> when the
  string has no such prefix, otherwise the number, \<open>NaN\<close> when the digits are missing or
  wrong.
\<close>

definition nonDecimal :: "string \<Rightarrow> jsnum option" where
  "nonDecimal s =
     (case s of
        c0 # c1 # ds \<Rightarrow>
          if c0 = CHR ''0'' \<and> c1 \<in> set ''xXoObB'' then
            (let r = (if c1 \<in> set ''xX'' then 16 else if c1 \<in> set ''oO'' then 8 else 2)
             in Some (if ds = [] then NaN
                      else case radix_value r 0 ds of None \<Rightarrow> NaN | Some n \<Rightarrow> round_double (of_int n)))
          else None
      | _ \<Rightarrow> None)"

text \<open>
  The exponent part of a decimal literal: nothing, or \<open>e\<close>/\<open>E\<close>, an optional sign and
  at least one digit, up to the end of the string.
\<close>

definition exponentPart :: "string \<Rightarrow> int option" where
  "exponentPart r =
     (case r of
        [] \<Rightarrow> Some 0
      | c # t \<Rightarrow>
          if c = CHR ''e'' \<or> c = CHR ''E'' then
            (let neg = (t \<noteq> [] \<and> hd t = CHR ''-'');
                 ds = (if t \<noteq> [] \<and> (hd t = CHR ''-'' \<or> hd t = CHR ''+'') then tl t else t)
             in if ds \<noteq> [] \<and> list_all is_digit ds
                then Some (if neg then - digits_value ds else digits_value ds)
                else None)
          else None)"

definition scale10 :: "rat \<Rightarrow> int \<Rightarrow> rat" where
  "scale10 q e = (if 0 \<le> e then q * 10 ^ nat e else q / 10 ^ nat (- e))"

text \<open>
  An unsigned decimal literal: \<open>Infinity\<close>, or digits with an optional fraction (one of
  the two sides of the point may be empty, not both) and an optional exponent. Its number
  is the double nearest to the value it denotes.
\<close>

definition strUnsignedDecimal :: "string \<Rightarrow> jsnum" where
  "strUnsignedDecimal s =
     (if s = ''Infinity'' then PosInf
      else
        let ip = takeWhile is_digit s;
            r1 = dropWhile is_digit s;
            dot = (r1 \<noteq> [] \<and> hd r1 = CHR ''.'');
            fp = (if dot then takeWhile is_digit (tl r1) else []);
            r2 = (if dot then dropWhile is_digit (tl r1) else r1)
        in if ip = [] \<and> fp = [] then NaN
           else case exponentPart r2 of
                  None \<Rightarrow> NaN
                | Some e \<Rightarrow>
                    round_double (scale10 (of_int (digits_value (ip @ fp))) (e - int (length fp))))"

definition strDecimal :: "string \<Rightarrow> jsnum" where
  "strDecimal s =
     (case s of
        [] \<Rightarrow> NaN
      | c # t \<Rightarrow>
          if c = CHR ''+'' then strUnsignedDecimal t
          else if c = CHR ''-'' then num_neg (strUnsignedDecimal t)
          else strUnsignedDecimal s)"

text \<open>\<open>Number(s)\<close> for a string: the empty or blank string is 0, what is no literal is \<open>NaN\<close>.\<close>

definition stringToNumber :: "string \<Rightarrow> jsnum" where
  "stringToNumber s =
     (let t = trim s
      in if t = [] then Fin 0
         else case nonDecimal t of Some n \<Rightarrow> n | None \<Rightarrow> strDecimal t)"

subsection \<open>The conversions \<open>Number(v)\<close> and \<open>Boolean(v)\<close>\<close>

text \<open>
  An array converts through its string: the empty array as the empty string, a
  one-element array as its element's string (empty for \<open>null\<close> and \<open>undefined\<close>), a longer
  one as a string with a comma, which is no number. An object's string is no number.
\<close>

fun toNumber :: "jsval \<Rightarrow> jsnum" where
  "toNumber JUndefined = NaN"
| "toNumber JNull = Fin 0"
| "toNumber (JBool b) = (if b then Fin 1 else Fin 0)"
| "toNumber (JNum n) = n"
| "toNumber (JStr s) = stringToNumber s"
| "toNumber (JArr []) = Fin 0"
| "toNumber (JArr [x]) =
     (case x of
        JUndefined \<Rightarrow> Fin 0
      | JNull \<Rightarrow> Fin 0
      | JBool b \<Rightarrow> NaN
      | JNum n \<Rightarrow> n
      | JStr s \<Rightarrow> stringToNumber s
      | JArr ys \<Rightarrow> toNumber (JArr ys)
      | JObj kvs \<Rightarrow> NaN)"
| "toNumber (JArr (x # y # zs)) = NaN"
| "toNumber (JObj kvs) = NaN"

fun toBoolean :: "jsval \<Rightarrow> bool" where
  "toBoolean JUndefined = False"
| "toBoolean JNull = False"
| "toBoolean (JBool b) = b"
| "toBoolean (JNum n) = (n \<noteq> Fin 0 \<and> n \<noteq> NaN)"
| "toBoolean (JStr s) = (s \<noteq> [])"
| "toBoolean (JArr xs) = True"
| "toBoolean (JObj kvs) = True"

section \<open>The schema library\<close>

text \<open>
  The schemas are written with the combinators of the validation library \<open>zod\<close>, which
  is not part of the repository. Its parsing is modelled here for the combinators the
  schemas use. A parse yields the issues it raised and, unless it was aborted, a value: a
  wrong type or a value outside an enumeration aborts the parse of that field, a failed
  check of a number (\<open>int\<close>, \<open>min\<close>, \<open>max\<close>) raises an issue and goes on to the next check.
  An issue is kept in its structured form (its code, with the bound or the types it
  reports); the library renders its message from that.
\<close>

datatype issue_code =
    invalid_type string string
  | invalid_enum_value "string list" string
  | too_small rat
  | too_big rat
  | custom string

datatype issue = Issue "string list" issue_code

fun issue_path :: "issue \<Rightarrow> string list" where
  "issue_path (Issue p c) = p"

type_synonym 'a parsed = "'a list \<times> jsval option"

text \<open>The type the library reports for a value.\<close>

fun getParsedType :: "jsval \<Rightarrow> string" where
  "getParsedType JUndefined = ''undefined''"
| "getParsedType JNull = ''null''"
| "getParsedType (JBool b) = ''boolean''"
| "getParsedType (JNum n) = (if n = NaN then ''nan'' else ''number'')"
| "getParsedType (JStr s) = ''string''"
| "getParsedType (JArr xs) = ''array''"
| "getParsedType (JObj kvs) = ''object''"

datatype check = CInt | CMin rat | CMax rat

text \<open>One check of a number: the issue it raises, if any.\<close>

fun run_check :: "jsnum \<Rightarrow> check \<Rightarrow> issue_code list" where
  "run_check n CInt = (if isInteger n then [] else [invalid_type ''integer'' ''float''])"
| "run_check n (CMin lo) = (if num_less n (Fin lo) then [too_small lo] else [])"
| "run_check n (CMax hi) = (if num_less (Fin hi) n then [too_big hi] else [])"

text \<open>The options of an enumeration as a type error names them: quoted, joined by bars.\<close>

fun joinValues :: "string list \<Rightarrow> string" where
  "joinValues [] = []"
| "joinValues [x] = CHR 0x27 # x @ [CHR 0x27]"
| "joinValues (x # y # zs) = CHR 0x27 # x @ [CHR 0x27] @ '' | '' @ joinValues (y # zs)"

text \<open>
  The schemas: \<open>z.enum\<close>, \<open>z.number()\<close> and \<open>z.boolean()\<close> (the flag says whether the
  schema is the coercing one, \<open>z.coerce.number()\<close> and \<open>z.coerce.boolean()\<close>),
  \<open>.optional()\<close>, \<open>.default(v)\<close> and \<open>z.preprocess(f, schema)\<close>.
\<close>

datatype zschema =
    ZEnum "string list"
  | ZNumber bool "check list"
  | ZBoolean bool
  | ZOptional zschema
  | ZDefault jsval zschema
  | ZPreprocess "jsval \<Rightarrow> jsval" zschema

fun zparse :: "zschema \<Rightarrow> jsval \<Rightarrow> issue_code parsed" where
  "zparse (ZEnum options) v =
     (case v of
        JStr s \<Rightarrow> if s \<in> set options then ([], Some v)
                  else ([invalid_enum_value options s], None)
      | _ \<Rightarrow> ([invalid_type (joinValues options) (getParsedType v)], None))"
| "zparse (ZNumber coerce checks) v =
     (let d = (if coerce then JNum (toNumber v) else v)
      in case d of
           JNum n \<Rightarrow>
             if n = NaN then ([invalid_type ''number'' ''nan''], None)
             else (concat (map (run_check n) checks), Some d)
         | _ \<Rightarrow> ([invalid_type ''number'' (getParsedType d)], None))"
| "zparse (ZBoolean coerce) v =
     (let d = (if coerce then JBool (toBoolean v) else v)
      in case d of
           JBool b \<Rightarrow> ([], Some d)
         | _ \<Rightarrow> ([invalid_type ''boolean'' (getParsedType d)], None))"
| "zparse (ZOptional inner) v =
     (if v = JUndefined then ([], Some JUndefined) else zparse inner v)"
| "zparse (ZDefault dflt inner) v =
     zparse inner (if v = JUndefined then dflt else v)"
| "zparse (ZPreprocess f inner) v = zparse inner (f v)"

text \<open>
  \<open>z.object(shape)\<close>: what is no object is a type error. Otherwise every field of the
  shape is parsed, in order, from the property of its name, and its issues are recorded
  under that name. If a field was aborted the object is; otherwise the value has the
  parsed fields, a field being left out when its value is \<open>undefined\<close> and the input
  has no such key. Keys outside the shape are dropped.
\<close>

definition parse_fields ::
    "(string \<times> zschema) list \<Rightarrow> jsval \<Rightarrow> (string \<times> issue_code parsed) list" where
  "parse_fields shape raw = map (\<lambda>(k, sch). (k, zparse sch (jsget raw k))) shape"

definition field_issues :: "(string \<times> issue_code parsed) list \<Rightarrow> issue list" where
  "field_issues pairs = concat (map (\<lambda>(k, r). map (Issue [k]) (fst r)) pairs)"

fun mergeObject :: "jsval \<Rightarrow> (string \<times> issue_code parsed) list \<Rightarrow> (string \<times> jsval) list option" where
  "mergeObject raw [] = Some []"
| "mergeObject raw ((k, r) # pairs) =
     (case snd r of
        None \<Rightarrow> None
      | Some v \<Rightarrow>
          (case mergeObject raw pairs of
             None \<Rightarrow> None
           | Some out \<Rightarrow> Some (if v \<noteq> JUndefined \<or> has_key raw k then (k, v) # out else out)))"

definition zobject :: "(string \<times> zschema) list \<Rightarrow> jsval \<Rightarrow> issue parsed" where
  "zobject shape raw =
     (case raw of
        JObj kvs \<Rightarrow>
          (let pairs = parse_fields shape raw
           in (field_issues pairs, map_option JObj (mergeObject raw pairs)))
      | _ \<Rightarrow> ([Issue [] (invalid_type ''object'' (getParsedType raw))], None))"

text \<open>
  \<open>schema.superRefine(f)\<close>: the refinement runs on the value of the inner schema unless
  that parse was aborted, and adds its issues to the inner ones.
\<close>

definition superRefine :: "(jsval \<Rightarrow> issue list) \<Rightarrow> (jsval \<Rightarrow> issue parsed) \<Rightarrow> jsval \<Rightarrow> issue parsed" where
  "superRefine refinement inner raw =
     (case inner raw of
        (iss, None) \<Rightarrow> (iss, None)
      | (iss, Some v) \<Rightarrow> (iss @ refinement v, Some v))"

text \<open>\<open>schema.safeParse(raw)\<close>: success only when no issue was raised.\<close>

datatype safe_parse_result = Success jsval | Failure "issue list"

definition safeParse :: "(jsval \<Rightarrow> issue parsed) \<Rightarrow> jsval \<Rightarrow> safe_parse_result" where
  "safeParse schema raw =
     (case schema raw of
        ([], Some v) \<Rightarrow> Success v
      | (iss, _) \<Rightarrow> Failure iss)"

section \<open>The input schema\<close>

subsection \<open>The schema of \<open>lib/schema.ts\<close>, written with the coercing schemas\<close>

definition clearHeatSchema_shape :: "(string \<times> zschema) list" where
  "clearHeatSchema_shape =
     [(''ber_band'', ZEnum [''A'', ''B'', ''C'', ''D'', ''E'', ''F'', ''G'']),
      (''floor_area_m2'', ZNumber True [CMin 20, CMax 1000]),
      (''emitters'', ZEnum [''radiators'', ''ufh'']),
      (''heating_pattern'', ZEnum [''rare'', ''normal'', ''high'']),
      (''wood_use'', ZEnum [''none'', ''some'', ''lots'']),
      (''occupants'', ZNumber True [CInt, CMin 1, CMax 20]),
      (''fuel_type'', ZEnum [''gas'', ''kerosene'']),
      (''fuel_price_eur_per_unit'', ZNumber True [CMin 0, CMax 5]),
      (''electricity_price_eur_per_kwh'', ZNumber True [CMin 0, CMax 5]),
      (''boiler_efficiency'', ZNumber True [CMin (1 / 2), CMax 1]),
      (''hp_quote_eur'', ZNumber True [CMin 0, CMax 100000]),
      (''grant_applied'', ZDefault (JBool True) (ZBoolean True)),
      (''grant_value_eur'', ZDefault (JNum (Fin 6500)) (ZNumber True [CMin 0])),
      (''bill_mode'',
         ZDefault (JStr ''annual_spend'') (ZEnum [''annual_fuel_use'', ''annual_spend'', ''none''])),
      (''annual_fuel_use'', ZOptional (ZNumber True [CMin 0])),
      (''annual_spend_eur'', ZOptional (ZNumber True [CMin 0]))]"

text \<open>The cross-field rule: the function given to \<open>superRefine\<close>.\<close>

definition bill_mode_refinement :: "jsval \<Rightarrow> issue list" where
  "bill_mode_refinement v =
     (if jsget v ''bill_mode'' = JStr ''annual_fuel_use'' \<and> is_nullish (jsget v ''annual_fuel_use'')
      then [Issue [''annual_fuel_use''] (custom ''Required when bill mode is annual fuel use.'')]
      else [])
     @ (if jsget v ''bill_mode'' = JStr ''annual_spend'' \<and> is_nullish (jsget v ''annual_spend_eur'')
        then [Issue [''annual_spend_eur''] (custom ''Required when bill mode is annual spend.'')]
        else [])"

definition clearHeatSchema :: "jsval \<Rightarrow> issue parsed" where
  "clearHeatSchema = superRefine bill_mode_refinement (zobject clearHeatSchema_shape)"

subsection \<open>The schema written with preprocessing functions\<close>

text \<open>\<open>asNumber\<close>: what the form gives (a string, a number, nothing) as a number.\<close>

fun asNumber :: "jsval \<Rightarrow> jsval" where
  "asNumber (JNum n) = JNum n"
| "asNumber (JStr v) =
     (let s = trim v
      in if s = [] then JUndefined
         else let n = stringToNumber s in if isFinite n then JNum n else JStr v)"
| "asNumber v = v"

definition num :: "rat \<Rightarrow> rat \<Rightarrow> zschema" where
  "num lo hi = ZPreprocess asNumber (ZNumber False [CMin lo, CMax hi])"

definition numOpt :: "rat \<Rightarrow> rat \<Rightarrow> zschema" where
  "numOpt lo hi = ZOptional (ZPreprocess asNumber (ZNumber False [CMin lo, CMax hi]))"

text \<open>The preprocessing function of \<open>bool\<close>, and \<open>bool\<close> itself.\<close>

definition bool_preprocess :: "jsval \<Rightarrow> jsval" where
  "bool_preprocess v =
     (case v of
        JBool b \<Rightarrow> v
      | _ \<Rightarrow>
          if v = JStr ''true'' \<or> v = JStr ''on'' \<or> v = JStr ''1'' \<or> v = JNum (Fin 1) then JBool True
          else if v = JStr ''false'' \<or> v = JStr ''off'' \<or> v = JStr ''0'' \<or> v = JNum (Fin 0)
                  \<or> is_nullish v \<or> v = JStr [] then JBool False
          else v)"

definition bool_schema :: zschema where
  "bool_schema = ZPreprocess bool_preprocess (ZBoolean False)"

definition clearHeatSchema_pre_shape :: "(string \<times> zschema) list" where
  "clearHeatSchema_pre_shape =
     [(''ber_band'', ZEnum [''A'', ''B'', ''C'', ''D'', ''E'', ''F'', ''G'']),
      (''floor_area_m2'', num 20 1000),
      (''emitters'', ZEnum [''radiators'', ''ufh'']),
      (''heating_pattern'', ZEnum [''rare'', ''normal'', ''high'']),
      (''wood_use'', ZEnum [''none'', ''some'', ''lots'']),
      (''occupants'', ZPreprocess asNumber (ZNumber False [CInt, CMin 1, CMax 20])),
      (''fuel_type'', ZEnum [''gas'', ''kerosene'']),
      (''fuel_price_eur_per_unit'', num 0 10),
      (''electricity_price_eur_per_kwh'', num 0 10),
      (''boiler_efficiency'', ZPreprocess asNumber (ZNumber False [CMin (3 / 10), CMax 1])),
      (''hp_quote_eur'', num 0 200000),
      (''grant_applied'', bool_schema),
      (''grant_value_eur'', num 0 50000),
      (''bill_mode'', ZEnum [''annual_fuel_use'', ''annual_spend'', ''none'']),
      (''annual_fuel_use'', numOpt 0 500000),
      (''annual_spend_eur'', numOpt 0 200000)]"



section \<open>The mock endpoint \<open>POST /api/evaluate\<close>\<close>

text \<open>
  \<open>error.flatten()\<close>: the issues with an empty path, and the others grouped under the
  first element of their path, in the order of the issues.
\<close>

record flattened =
  formErrors :: "issue_code list"
  fieldErrors :: "(string \<times> issue_code list) list"

fun push_field :: "string \<Rightarrow> issue_code \<Rightarrow> (string \<times> issue_code list) list \<Rightarrow> (string \<times> issue_code list) list" where
  "push_field k c [] = [(k, [c])]"
| "push_field k c ((k', cs) # rest) =
     (if k = k' then (k', cs @ [c]) # rest else (k', cs) # push_field k c rest)"

fun flatten_issue :: "flattened \<Rightarrow> issue \<Rightarrow> flattened" where
  "flatten_issue acc (Issue [] c) = acc\<lparr>formErrors := formErrors acc @ [c]\<rparr>"
| "flatten_issue acc (Issue (k # ks) c) = acc\<lparr>fieldErrors := push_field k c (fieldErrors acc)\<rparr>"

definition flatten :: "issue list \<Rightarrow> flattened" where
  "flatten iss = foldl flatten_issue \<lparr>formErrors = [], fieldErrors = []\<rparr> iss"

datatype response_body = ErrorBody string flattened | JsonBody jsval

record http_response =
  resp_status :: nat
  resp_body :: response_body

definition mock_payload :: "jsval \<Rightarrow> jsval" where
  "mock_payload data =
     JObj [(''verdict'', JStr ''LIKELY''),
           (''confidence'', JNum (Fin (78 / 100))),
           (''annual_savings_eur'', JArr [JNum (Fin 300), JNum (Fin 900)]),
           (''payback_years'', JArr [JNum (Fin 8), JNum (Fin 14)]),
           (''assumptions'',
              JArr [JStr ''Electricity price held constant in real terms'',
                    JStr ''Typical seasonal efficiency assumed for system type and emitters'',
                    JStr ''No fabric upgrades included unless stated'']),
           (''notes'',
              JArr [JStr (if toBoolean (jsget data ''annual_spend_eur'')
                          then ''Annual spend provided: confidence increased.''
                          else ''Annual spend missing: results rely on typical consumption estimates.'')]),
           (''pdf_url'', JNull)]"

text \<open>The handler, from the parsed JSON of the request's body.\<close>

definition POST :: "jsval \<Rightarrow> http_response" where
  "POST json =
     (case safeParse clearHeatSchema json of
        Failure iss \<Rightarrow>
          \<lparr>resp_status = 400, resp_body = ErrorBody ''Invalid input'' (flatten iss)\<rparr>
      | Success data \<Rightarrow>
          \<lparr>resp_status = 200, resp_body = JsonBody (mock_payload data)\<rparr>)"

section \<open>The wizard\<close>

text \<open>
  The state of \<open>CalculatorWizard\<close>, and what its actions do to the outside: a POST
  request with a JSON body, a blocking alert, the save of a file under a name, the release
  of the object URL made for it.
\<close>

record wizard =
  step :: nat
  reportReady :: bool
  loading :: bool
  lastInputs :: "jsval option"

datatype effect =
    Post string jsval
  | Alert string
  | SaveFile string string
  | RevokeObjectURL

text \<open>
  How a promise settles: fulfilled with a value, or rejected with an error, of which
  only the message (if it has one) is read. A response has its \<open>ok\<close> flag and the
  outcomes of reading its body as JSON, as text and as a blob.
\<close>

datatype 'a settled = Fulfilled 'a | Rejected "string option"

record response =
  res_ok :: bool
  res_json :: "jsval settled"
  res_text :: "string settled"
  res_blob :: "string settled"

definition BACKEND_BASE :: "string option \<Rightarrow> string" where
  "BACKEND_BASE env = (case env of None \<Rightarrow> ''http://127.0.0.1:8000'' | Some b \<Rightarrow> b)"

text \<open>
  \<open>runModel\<close>, in the two parts the \<open>await\<close> separates: up to the request, and from
  its outcome on. \<open>run_attempt\<close> is the \<open>try\<close> block: \<open>None\<close> when it completes, the
  message of what it throws otherwise.
\<close>

definition runModel_start :: "string \<Rightarrow> jsval \<Rightarrow> wizard \<Rightarrow> wizard \<times> effect list" where
  "runModel_start base vals s =
     (s\<lparr>loading := True, lastInputs := Some vals\<rparr>,
      [Post (base @ ''/run'') (JObj [(''inputs'', vals)])])"

definition run_attempt :: "response settled \<Rightarrow> string option option" where
  "run_attempt r =
     (case r of
        Rejected m \<Rightarrow> Some m
      | Fulfilled res \<Rightarrow>
          if \<not> res_ok res then Some (Some ''Evaluation failed'')
          else (case res_json res of Rejected m \<Rightarrow> Some m | Fulfilled j \<Rightarrow> None))"

definition settle :: "string option option \<Rightarrow> wizard \<Rightarrow> wizard \<times> effect list" where
  "settle thrown s =
     (case thrown of
        None \<Rightarrow> (s\<lparr>reportReady := True, loading := False\<rparr>, [])
      | Some m \<Rightarrow>
          (s\<lparr>loading := False\<rparr>,
           [Alert (case m of None \<Rightarrow> ''Error generating report'' | Some t \<Rightarrow> t)]))"

definition runModel :: "string \<Rightarrow> jsval \<Rightarrow> response settled \<Rightarrow> wizard \<Rightarrow> wizard \<times> effect list" where
  "runModel base vals r s =
     (let (s1, e1) = runModel_start base vals s;
          (s2, e2) = settle (run_attempt r) s1
      in (s2, e1 @ e2))"

text \<open>
  The other version of the component reads the text of a response that is not \<open>ok\<close> and
  alerts with it when it is not empty.
\<close>

definition run_attempt_text :: "response settled \<Rightarrow> string option option" where
  "run_attempt_text r =
     (case r of
        Rejected m \<Rightarrow> Some m
      | Fulfilled res \<Rightarrow>
          if \<not> res_ok res then
            (case res_text res of
               Rejected m \<Rightarrow> Some m
             | Fulfilled err \<Rightarrow> Some (Some (if err = [] then ''Evaluation failed'' else err)))
          else (case res_json res of Rejected m \<Rightarrow> Some m | Fulfilled j \<Rightarrow> None))"

definition runModel_text :: "string \<Rightarrow> jsval \<Rightarrow> response settled \<Rightarrow> wizard \<Rightarrow> wizard \<times> effect list" where
  "runModel_text base vals r s =
     (let (s1, e1) = runModel_start base vals s;
          (s2, e2) = settle (run_attempt_text r) s1
      in (s2, e1 @ e2))"

text \<open>
  \<open>downloadPdf\<close>: nothing without stored inputs. \<open>save_effects\<close> is what follows the
  request: the body of the response, whatever its status, is read as a blob and saved
  under the fixed name. A request that fails, or a body that cannot be read, rejects the
  function's promise and nothing is saved.
\<close>

definition save_effects :: "response settled \<Rightarrow> effect list" where
  "save_effects r =
     (case r of
        Rejected m \<Rightarrow> []
      | Fulfilled res \<Rightarrow>
          (case res_blob res of
             Rejected m \<Rightarrow> []
           | Fulfilled blob \<Rightarrow> [SaveFile ''clearheat_report.pdf'' blob, RevokeObjectURL]))"

definition downloadPdf :: "string \<Rightarrow> response settled \<Rightarrow> wizard \<Rightarrow> wizard \<times> effect list" where
  "downloadPdf base r s =
     (case lastInputs s of
        None \<Rightarrow> (s, [])
      | Some inputs \<Rightarrow>
          (s, Post (base @ ''/pdf'') (JObj [(''inputs'', inputs)]) # save_effects r))"

text \<open>
  The buttons. "Back" is disabled on the first step and "Next" is shown before the last
  one. "Generate report" is shown on the last step and disabled while loading; the form
  validates its values against the schema and calls \<open>runModel\<close> with the parsed value
  only when they are valid.
\<close>

definition go_back :: "wizard \<Rightarrow> wizard" where
  "go_back s = (if step s = 0 then s else s\<lparr>step := step s - 1\<rparr>)"

definition go_next :: "wizard \<Rightarrow> wizard" where
  "go_next s = (if step s < 2 then s\<lparr>step := step s + 1\<rparr> else s)"

definition generate_report :: "string \<Rightarrow> jsval \<Rightarrow> response settled \<Rightarrow> wizard \<Rightarrow> wizard \<times> effect list" where
  "generate_report base form_values r s =
     (if step s \<noteq> 2 \<or> loading s then (s, [])
      else case safeParse clearHeatSchema form_values of
             Failure iss \<Rightarrow> (s, [])
           | Success v \<Rightarrow> runModel base v r s)"

text \<open>A sequence of downloads, each with the outcome of its request.\<close>

fun downloads :: "string \<Rightarrow> response settled list \<Rightarrow> wizard \<Rightarrow> wizard \<times> effect list" where
  "downloads base [] s = (s, [])"
| "downloads base (r # rs) s =
     (let (s1, e1) = downloadPdf base r s;
          (s2, e2) = downloads base rs s1
      in (s2, e1 @ e2))"

text \<open>The form's default values.\<close>

definition defaultValues :: jsval where
  "defaultValues =
     JObj [(''ber_band'', JStr ''C''),
           (''floor_area_m2'', JNum (Fin 120)),
           (''emitters'', JStr ''radiators''),
           (''heating_pattern'', JStr ''normal''),
           (''wood_use'', JStr ''none''),
           (''occupants'', JNum (Fin 2)),
           (''fuel_type'', JStr ''kerosene''),
           (''fuel_price_eur_per_unit'', JNum (Fin (11 / 10))),
           (''electricity_price_eur_per_kwh'', JNum (Fin (35 / 100))),
           (''boiler_efficiency'', JNum (Fin (85 / 100))),
           (''hp_quote_eur'', JNum (Fin 12000)),
           (''grant_applied'', JBool True),
           (''grant_value_eur'', JNum (Fin 6500)),
           (''bill_mode'', JStr ''annual_spend''),
           (''annual_spend_eur'', JNum (Fin 2400))]"

subsection \<open>Outcomes of the evaluate request, and sample states\<close>

text \<open>
  The evaluate call fails when the request is rejected (a transport failure) or is
  answered with a status that is not a success. It succeeds when the answer is \<open>ok\<close> and
  its body reads as JSON.
\<close>

definition evaluate_failed :: "response settled \<Rightarrow> bool" where
  "evaluate_failed r = (case r of Rejected m \<Rightarrow> True | Fulfilled res \<Rightarrow> \<not> res_ok res)"

definition evaluate_succeeded :: "response settled \<Rightarrow> bool" where
  "evaluate_succeeded r =
     (case r of
        Rejected m \<Rightarrow> False
      | Fulfilled res \<Rightarrow>
          res_ok res \<and> (case res_json res of Fulfilled j \<Rightarrow> True | Rejected m \<Rightarrow> False))"

definition step3_idle :: wizard where
  "step3_idle = \<lparr>step = 2, reportReady = False, loading = False, lastInputs = None\<rparr>"

definition http_500 :: "response settled" where
  "http_500 =
     Fulfilled \<lparr>res_ok = False, res_json = Rejected (Some ''Unexpected token''),
                res_text = Fulfilled ''Internal Server Error'',
                res_blob = Fulfilled ''Internal Server Error''\<rparr>"

definition http_200 :: "response settled" where
  "http_200 =
     Fulfilled \<lparr>res_ok = True, res_json = Fulfilled (JObj []),
                res_text = Fulfilled ''{}'', res_blob = Fulfilled ''%PDF''\<rparr>"

subsection \<open>Single fields, and sample inputs\<close>

text \<open>
  The parse of one field of a shape on a raw value (nothing when the shape has no such
  field), and whether the field accepts the value: no issue, and a value.
\<close>

definition parse_field :: "(string \<times> zschema) list \<Rightarrow> string \<Rightarrow> jsval \<Rightarrow> issue_code parsed option" where
  "parse_field shape k v = map_option (\<lambda>sch. zparse sch v) (map_of shape k)"

definition accepts :: "(string \<times> zschema) list \<Rightarrow> string \<Rightarrow> jsval \<Rightarrow> bool" where
  "accepts shape k v = (case parse_field shape k v of Some ([], Some out) \<Rightarrow> True | _ \<Rightarrow> False)"

text \<open>An object without one of its keys, and with a key set to a value.\<close>

definition without :: "string \<Rightarrow> jsval \<Rightarrow> jsval" where
  "without k obj = (case obj of JObj kvs \<Rightarrow> JObj (filter (\<lambda>(k', v). k' \<noteq> k) kvs) | _ \<Rightarrow> obj)"

definition with_field :: "string \<Rightarrow> jsval \<Rightarrow> jsval \<Rightarrow> jsval" where
  "with_field k v obj =
     (case obj of JObj kvs \<Rightarrow> JObj (filter (\<lambda>(k', v). k' \<noteq> k) kvs @ [(k, v)]) | _ \<Rightarrow> obj)"

text \<open>
  The default values with the annual spend removed; with the bill mode set to the annual
  fuel use, which they do not give; and with no bill mode, without and with the spend.
\<close>

definition spend_missing :: jsval where
  "spend_missing = without ''annual_spend_eur'' defaultValues"

definition fuel_use_missing :: jsval where
  "fuel_use_missing = with_field ''bill_mode'' (JStr ''annual_fuel_use'') defaultValues"

definition no_bills :: jsval where
  "no_bills = with_field ''bill_mode'' (JStr ''none'') (without ''annual_spend_eur'' defaultValues)"

definition no_bill_mode_with_spend :: jsval where
  "no_bill_mode_with_spend = with_field ''bill_mode'' (JStr ''none'') defaultValues"

subsection \<open>Decimal numerals\<close>















text \<open>The checks of the number schema inside a schema, through its wrappers.\<close>

fun checks_of :: "zschema \<Rightarrow> check list" where
  "checks_of (ZEnum options) = []"
| "checks_of (ZNumber coerce checks) = checks"
| "checks_of (ZBoolean coerce) = []"
| "checks_of (ZOptional inner) = checks_of inner"
| "checks_of (ZDefault dflt inner) = checks_of inner"
| "checks_of (ZPreprocess f inner) = checks_of inner"






subsection \<open>The validated input\<close>









section \<open>Properties\<close>

subsection \<open>The wizard's request lifecycle\<close>

lemma run_attempt_failed: "evaluate_failed r \<Longrightarrow> \<exists>m. run_attempt r = Some m"
  by (auto simp: evaluate_failed_def run_attempt_def split: settled.splits)

lemma run_attempt_text_failed: "evaluate_failed r \<Longrightarrow> \<exists>m. run_attempt_text r = Some m"
  by (auto simp: evaluate_failed_def run_attempt_text_def split: settled.splits)

lemma run_attempt_succeeded: "evaluate_succeeded r \<Longrightarrow> run_attempt r = None"
  by (auto simp: evaluate_succeeded_def run_attempt_def split: settled.splits)

lemma run_attempt_text_succeeded: "evaluate_succeeded r \<Longrightarrow> run_attempt_text r = None"
  by (auto simp: evaluate_succeeded_def run_attempt_text_def split: settled.splits)

lemma defaultValues_valid: "safeParse clearHeatSchema defaultValues = Success defaultValues"
  by code_simp

lemma http_500_failed: "evaluate_failed http_500"
  by (simp add: evaluate_failed_def http_500_def)

lemma http_200_succeeded: "evaluate_succeeded http_200"
  by (simp add: evaluate_succeeded_def http_200_def)

lemma save_effects_no_post: "Post u b \<notin> set (save_effects r)"
  by (simp add: save_effects_def split: settled.splits)

lemma downloads_stored:
  "lastInputs s = Some v \<Longrightarrow>
   downloads base rs s =
     (s, concat (map (\<lambda>r. Post (base @ ''/pdf'') (JObj [(''inputs'', v)]) # save_effects r) rs))"
  by (induction rs) (simp_all add: downloadPdf_def)

lemma runModel_succeeded:
  "evaluate_succeeded r \<Longrightarrow>
   runModel base vals r s =
     (s\<lparr>loading := False, lastInputs := Some vals, reportReady := True\<rparr>,
      [Post (base @ ''/run'') (JObj [(''inputs'', vals)])])"
  by (simp add: runModel_def runModel_start_def settle_def run_attempt_succeeded)

lemma runModel_text_succeeded:
  "evaluate_succeeded r \<Longrightarrow>
   runModel_text base vals r s =
     (s\<lparr>loading := False, lastInputs := Some vals, reportReady := True\<rparr>,
      [Post (base @ ''/run'') (JObj [(''inputs'', vals)])])"
  by (simp add: runModel_text_def runModel_start_def settle_def run_attempt_text_succeeded)

text \<open>
  C6. A valid payload is submitted on the third step, with no request in flight and no
  report ready yet, and the evaluate call fails (a rejected request, or an answer that is
  not a success such as HTTP 500). Then the request was sent to \<open>/run\<close>, one alert is
  shown, the wizard is still on the third step, \<open>reportReady\<close> is still false and
  \<open>loading\<close> is false again: the button is enabled, and a second submission that
  succeeds makes the report ready. The version of the component that alerts with the text
  of the response behaves the same.
\<close>

theorem failed_evaluate_alerts:
  assumes "safeParse clearHeatSchema payload = Success v"
    and "step s = 2" and "\<not> loading s" and "\<not> reportReady s"
    and "evaluate_failed r"
  shows "(\<exists>msg. generate_report base payload r s =
            (s\<lparr>lastInputs := Some v\<rparr>,
             [Post (base @ ''/run'') (JObj [(''inputs'', v)]), Alert msg]))
       \<and> step (fst (generate_report base payload r s)) = 2
       \<and> \<not> reportReady (fst (generate_report base payload r s))
       \<and> \<not> loading (fst (generate_report base payload r s))
       \<and> (evaluate_succeeded r2 \<longrightarrow>
            reportReady (fst (generate_report base payload r2 (fst (generate_report base payload r s)))))
       \<and> (\<exists>msg. runModel_text base v r s =
            (s\<lparr>lastInputs := Some v\<rparr>,
             [Post (base @ ''/run'') (JObj [(''inputs'', v)]), Alert msg]))"
proof -
  obtain m where m: "run_attempt r = Some m"
    using run_attempt_failed [OF assms(5)] by blast
  obtain m' where m': "run_attempt_text r = Some m'"
    using run_attempt_text_failed [OF assms(5)] by blast
  have g: "generate_report base payload r s =
      (s\<lparr>lastInputs := Some v\<rparr>,
       [Post (base @ ''/run'') (JObj [(''inputs'', v)]),
        Alert (case m of None \<Rightarrow> ''Error generating report'' | Some t \<Rightarrow> t)])"
    using assms(1-4) m
    by (simp add: generate_report_def runModel_def runModel_start_def settle_def)
  have a: "\<exists>msg. generate_report base payload r s =
           (s\<lparr>lastInputs := Some v\<rparr>, [Post (base @ ''/run'') (JObj [(''inputs'', v)]), Alert msg])"
    using g by blast
  have b: "step (fst (generate_report base payload r s)) = 2" using g assms(2) by simp
  have c: "\<not> reportReady (fst (generate_report base payload r s))" using g assms(4) by simp
  have d: "\<not> loading (fst (generate_report base payload r s))" using g assms(3) by simp
  have e: "reportReady (fst (generate_report base payload r2 (fst (generate_report base payload r s))))"
    if "evaluate_succeeded r2"
    using g assms(1-4) run_attempt_succeeded [OF that]
    by (simp add: generate_report_def runModel_def runModel_start_def settle_def)
  have f: "\<exists>msg. runModel_text base v r s =
           (s\<lparr>lastInputs := Some v\<rparr>, [Post (base @ ''/run'') (JObj [(''inputs'', v)]), Alert msg])"
    using assms(3) m' by (simp add: runModel_text_def runModel_start_def settle_def)
  from a b c d e f show ?thesis by blast
qed

theorem failed_evaluate_alerts_witness:
  "safeParse clearHeatSchema defaultValues = Success defaultValues
   \<and> step step3_idle = 2 \<and> \<not> loading step3_idle \<and> \<not> reportReady step3_idle
   \<and> evaluate_failed http_500 \<and> evaluate_succeeded http_200
   \<and> generate_report ''http://127.0.0.1:8000'' defaultValues http_500 step3_idle =
       (step3_idle\<lparr>lastInputs := Some defaultValues\<rparr>,
        [Post ''http://127.0.0.1:8000/run'' (JObj [(''inputs'', defaultValues)]),
         Alert ''Evaluation failed''])
   \<and> step (fst (generate_report ''http://127.0.0.1:8000'' defaultValues http_500 step3_idle)) = 2
   \<and> \<not> reportReady (fst (generate_report ''http://127.0.0.1:8000'' defaultValues http_500 step3_idle))
   \<and> \<not> loading (fst (generate_report ''http://127.0.0.1:8000'' defaultValues http_500 step3_idle))
   \<and> reportReady (fst (generate_report ''http://127.0.0.1:8000'' defaultValues http_200
        (fst (generate_report ''http://127.0.0.1:8000'' defaultValues http_500 step3_idle))))"
proof -
  have s: "step step3_idle = 2" "\<not> loading step3_idle" "\<not> reportReady step3_idle"
    by (simp_all add: step3_idle_def)
  note t = failed_evaluate_alerts [OF defaultValues_valid s http_500_failed,
      of "''http://127.0.0.1:8000''" http_200]
  have g: "generate_report ''http://127.0.0.1:8000'' defaultValues http_500 step3_idle =
       (step3_idle\<lparr>lastInputs := Some defaultValues\<rparr>,
        [Post ''http://127.0.0.1:8000/run'' (JObj [(''inputs'', defaultValues)]),
         Alert ''Evaluation failed''])"
    using s
    by (simp add: generate_report_def defaultValues_valid runModel_def runModel_start_def
        settle_def run_attempt_def http_500_def)
  show ?thesis
    using t g s defaultValues_valid http_500_failed http_200_succeeded by simp
qed

text \<open>
  C7. After an evaluate call that succeeded, the report is ready and the submitted values
  are the stored ones. Every download of any sequence of downloads then posts these same
  values to \<open>/pdf\<close>; when the body of the answer is read, it is saved as
  \<open>clearheat_report.pdf\<close>. The state of the wizard after the downloads is the state
  before them, and nothing is posted to \<open>/run\<close>. This holds for both versions of
  \<open>runModel\<close>.
\<close>

theorem downloads_after_success:
  assumes "evaluate_succeeded r"
  shows "reportReady (fst (runModel base vals r s))
       \<and> lastInputs (fst (runModel base vals r s)) = Some vals
       \<and> downloads base rs (fst (runModel base vals r s)) =
           (fst (runModel base vals r s),
            concat (map (\<lambda>r'. Post (base @ ''/pdf'') (JObj [(''inputs'', vals)]) # save_effects r') rs))
       \<and> downloads base rs (fst (runModel_text base vals r s)) =
           (fst (runModel_text base vals r s),
            concat (map (\<lambda>r'. Post (base @ ''/pdf'') (JObj [(''inputs'', vals)]) # save_effects r') rs))
       \<and> (res_blob res = Fulfilled blob \<longrightarrow>
            save_effects (Fulfilled res) = [SaveFile ''clearheat_report.pdf'' blob, RevokeObjectURL])
       \<and> Post (base @ ''/run'') body \<notin> set (snd (downloads base rs (fst (runModel base vals r s))))"
proof -
  let ?s1 = "fst (runModel base vals r s)"
  have l: "lastInputs ?s1 = Some vals" and rr: "reportReady ?s1"
    by (simp_all add: runModel_succeeded [OF assms])
  have lt: "lastInputs (fst (runModel_text base vals r s)) = Some vals"
    by (simp add: runModel_text_succeeded [OF assms])
  have np: "Post (base @ ''/run'') body \<notin> set (snd (downloads base rs ?s1))"
    by (auto simp: downloads_stored [OF l] save_effects_no_post)
  have sv: "res_blob res = Fulfilled blob \<longrightarrow>
      save_effects (Fulfilled res) = [SaveFile ''clearheat_report.pdf'' blob, RevokeObjectURL]"
    by (simp add: save_effects_def)
  from l rr np sv downloads_stored [OF l, of base rs] downloads_stored [OF lt, of base rs]
  show ?thesis by blast
qed

theorem downloads_after_success_witness:
  "evaluate_succeeded http_200
   \<and> snd (downloads ''http://127.0.0.1:8000'' [http_200, http_200]
        (fst (runModel ''http://127.0.0.1:8000'' defaultValues http_200 step3_idle))) =
       [Post ''http://127.0.0.1:8000/pdf'' (JObj [(''inputs'', defaultValues)]),
        SaveFile ''clearheat_report.pdf'' ''%PDF'', RevokeObjectURL,
        Post ''http://127.0.0.1:8000/pdf'' (JObj [(''inputs'', defaultValues)]),
        SaveFile ''clearheat_report.pdf'' ''%PDF'', RevokeObjectURL]
   \<and> fst (downloads ''http://127.0.0.1:8000'' [http_200, http_200]
        (fst (runModel ''http://127.0.0.1:8000'' defaultValues http_200 step3_idle))) =
       step3_idle\<lparr>lastInputs := Some defaultValues, reportReady := True\<rparr>"
proof -
  note t = downloads_after_success [OF http_200_succeeded,
      of "''http://127.0.0.1:8000''" defaultValues step3_idle "[http_200, http_200]"]
  have s1: "fst (runModel ''http://127.0.0.1:8000'' defaultValues http_200 step3_idle) =
      step3_idle\<lparr>lastInputs := Some defaultValues, reportReady := True\<rparr>"
    by (simp add: runModel_succeeded [OF http_200_succeeded] step3_idle_def)
  have sv: "save_effects http_200 = [SaveFile ''clearheat_report.pdf'' ''%PDF'', RevokeObjectURL]"
    by (simp add: save_effects_def http_200_def)
  show ?thesis
    using t s1 sv http_200_succeeded by simp
qed

text \<open>
  C9. Without stored inputs the download does nothing: no request, no file, the same
  state.
\<close>

theorem download_without_inputs:
  "lastInputs s = None \<Longrightarrow> downloadPdf base r s = (s, [])"
  by (simp add: downloadPdf_def)

theorem download_without_inputs_witness:
  "lastInputs step3_idle = None
   \<and> downloadPdf ''http://127.0.0.1:8000'' http_200 step3_idle = (step3_idle, [])"
  using download_without_inputs [of step3_idle "''http://127.0.0.1:8000''" http_200]
  by (simp add: step3_idle_def)

text \<open>
  C10. \<open>runModel\<close> stores the submitted values with the request, before its outcome is
  known. Whatever the outcome, failure included, the stored inputs after the call are the
  submitted values (the earlier ones are not restored, and a second submission replaces
  them), and a download that follows posts them.
\<close>

theorem runModel_stores_inputs:
  "runModel_start base vals s =
     (s\<lparr>loading := True, lastInputs := Some vals\<rparr>,
      [Post (base @ ''/run'') (JObj [(''inputs'', vals)])])
   \<and> lastInputs (fst (runModel base vals r s)) = Some vals
   \<and> lastInputs (fst (runModel_text base vals r s)) = Some vals
   \<and> lastInputs (fst (runModel base vals' r' (fst (runModel base vals r s)))) = Some vals'
   \<and> downloadPdf base r' (fst (runModel base vals r s)) =
       (fst (runModel base vals r s),
        Post (base @ ''/pdf'') (JObj [(''inputs'', vals)]) # save_effects r')
   \<and> downloadPdf base r' (fst (runModel_text base vals r s)) =
       (fst (runModel_text base vals r s),
        Post (base @ ''/pdf'') (JObj [(''inputs'', vals)]) # save_effects r')"
  by (simp add: runModel_def runModel_text_def runModel_start_def settle_def downloadPdf_def
      split: option.splits)

theorem runModel_stores_inputs_witness:
  "lastInputs (fst (runModel ''http://127.0.0.1:8000'' (JObj []) http_500
      (step3_idle\<lparr>lastInputs := Some defaultValues, reportReady := True\<rparr>))) = Some (JObj [])
   \<and> snd (downloadPdf ''http://127.0.0.1:8000'' http_200
        (fst (runModel ''http://127.0.0.1:8000'' (JObj []) http_500
          (step3_idle\<lparr>lastInputs := Some defaultValues, reportReady := True\<rparr>)))) =
       [Post ''http://127.0.0.1:8000/pdf'' (JObj [(''inputs'', JObj [])]),
        SaveFile ''clearheat_report.pdf'' ''%PDF'', RevokeObjectURL]"
proof -
  note t = runModel_stores_inputs [of "''http://127.0.0.1:8000''" "JObj []"
      "step3_idle\<lparr>lastInputs := Some defaultValues, reportReady := True\<rparr>" http_500 "JObj []" http_200]
  have sv: "save_effects http_200 = [SaveFile ''clearheat_report.pdf'' ''%PDF'', RevokeObjectURL]"
    by (simp add: save_effects_def http_200_def)
  show ?thesis using t sv by simp
qed

subsection \<open>The fields of the schema\<close>

lemma bool_schema_parse:
  "zparse bool_schema v =
     (if v \<in> {JBool True, JStr ''true'', JStr ''on'', JStr ''1'', JNum (Fin 1)}
      then ([], Some (JBool True))
      else if v \<in> {JBool False, JStr ''false'', JStr ''off'', JStr ''0'', JNum (Fin 0), JNull, JStr [],
                    JUndefined}
      then ([], Some (JBool False))
      else ([invalid_type ''boolean'' (getParsedType v)], None))"
  by (cases v) (auto simp: bool_schema_def bool_preprocess_def)

lemma coerce_boolean_parse:
  "zparse (ZDefault (JBool True) (ZBoolean True)) v =
     ([], Some (JBool (if v = JUndefined then True else toBoolean v)))"
  by simp

lemma grant_applied_fields:
  "map_of clearHeatSchema_shape ''grant_applied'' = Some (ZDefault (JBool True) (ZBoolean True))"
  "map_of clearHeatSchema_pre_shape ''grant_applied'' = Some bool_schema"
  by (simp_all add: clearHeatSchema_shape_def clearHeatSchema_pre_shape_def)

text \<open>
  C1 (as amended). In the schema written with preprocessing functions, \<open>grant_applied\<close>
  is \<open>bool\<close>: \<open>true\<close>, \<open>"true"\<close>, \<open>"on"\<close>, \<open>"1"\<close> and \<open>1\<close> give true; \<open>false\<close>,
  \<open>"false"\<close>, \<open>"off"\<close>, \<open>"0"\<close>, \<open>0\<close>, \<open>null\<close>, the empty string and a missing value give
  false; every other value is a type error. In the schema of \<open>lib/schema.ts\<close> the field
  is \<open>z.coerce.boolean().default(true)\<close>: it never fails, a missing value gives true and
  any other value gives its truthiness.
\<close>

theorem grant_applied_coercion:
  "parse_field clearHeatSchema_pre_shape ''grant_applied'' v =
     Some (if v \<in> {JBool True, JStr ''true'', JStr ''on'', JStr ''1'', JNum (Fin 1)}
           then ([], Some (JBool True))
           else if v \<in> {JBool False, JStr ''false'', JStr ''off'', JStr ''0'', JNum (Fin 0), JNull,
                         JStr [], JUndefined}
           then ([], Some (JBool False))
           else ([invalid_type ''boolean'' (getParsedType v)], None))
   \<and> parse_field clearHeatSchema_shape ''grant_applied'' v =
       Some ([], Some (JBool (if v = JUndefined then True else toBoolean v)))"
  unfolding parse_field_def grant_applied_fields
  by (simp only: option.map bool_schema_parse coerce_boolean_parse simp_thms)

text \<open>
  The claim as stated fails on the schema of \<open>lib/schema.ts\<close>: the string \<open>"false"\<close> is
  not empty, so it is coerced to true.
\<close>

theorem grant_applied_false_string:
  "parse_field clearHeatSchema_shape ''grant_applied'' (JStr ''false'') = Some ([], Some (JBool True))"
  by (simp add: parse_field_def clearHeatSchema_shape_def)

lemma number_checks:
  "n \<noteq> NaN \<Longrightarrow> zparse (ZNumber False cs) (JNum n) = (concat (map (run_check n) cs), Some (JNum n))"
  "toNumber v \<noteq> NaN \<Longrightarrow>
     zparse (ZNumber True cs) v = (concat (map (run_check (toNumber v)) cs), Some (JNum (toNumber v)))"
  "toNumber v = NaN \<Longrightarrow> zparse (ZNumber True cs) v = ([invalid_type ''number'' ''nan''], None)"
  by simp_all

lemma int_in_range: "(q = rat_of_int \<lfloor>q\<rfloor> \<and> 1 \<le> q \<and> q \<le> 20) = (\<exists>i::int. 1 \<le> i \<and> i \<le> 20 \<and> q = of_int i)"
proof
  assume a: "q = rat_of_int \<lfloor>q\<rfloor> \<and> 1 \<le> q \<and> q \<le> 20"
  then have "1 \<le> \<lfloor>q\<rfloor>" "\<lfloor>q\<rfloor> \<le> 20" by linarith+
  with a show "\<exists>i::int. 1 \<le> i \<and> i \<le> 20 \<and> q = of_int i" by blast
next
  assume "\<exists>i::int. 1 \<le> i \<and> i \<le> 20 \<and> q = of_int i"
  then show "q = rat_of_int \<lfloor>q\<rfloor> \<and> 1 \<le> q \<and> q \<le> 20" by auto
qed

lemma occupants_accepts:
  "accepts clearHeatSchema_shape ''occupants'' v = (\<exists>i::int. 1 \<le> i \<and> i \<le> 20 \<and> toNumber v = Fin (of_int i))"
proof (cases "toNumber v")
  case (Fin q)
  then have "accepts clearHeatSchema_shape ''occupants'' v = (q = rat_of_int \<lfloor>q\<rfloor> \<and> 1 \<le> q \<and> q \<le> 20)"
    by (auto simp add: accepts_def parse_field_def clearHeatSchema_shape_def not_less)
  then show ?thesis
    using Fin by (simp only: int_in_range jsnum.inject)
qed (simp_all add: accepts_def parse_field_def clearHeatSchema_shape_def)

lemma floor_area_accepts:
  "accepts clearHeatSchema_shape ''floor_area_m2'' v = (\<exists>q. 20 \<le> q \<and> q \<le> 1000 \<and> toNumber v = Fin q)"
  by (cases "toNumber v") (auto simp add: accepts_def parse_field_def clearHeatSchema_shape_def not_less)

subsection \<open>The parse of an object\<close>

lemma zparse_aborted: "snd (zparse sch v) = None \<Longrightarrow> fst (zparse sch v) \<noteq> []"
  by (induction sch arbitrary: v) (auto simp: Let_def split: jsval.splits if_splits)

lemma field_issues_Cons:
  "field_issues ((k, r) # pairs) = map (Issue [k]) (fst r) @ field_issues pairs"
  by (simp add: field_issues_def)

lemma field_issues_Nil_list: "field_issues [] = []"
  by (simp add: field_issues_def)

lemma parse_fields_Nil: "parse_fields [] raw = []"
  by (simp add: parse_fields_def)

lemma parse_fields_Cons:
  "parse_fields ((k, sch) # shape) raw = (k, zparse sch (jsget raw k)) # parse_fields shape raw"
  by (simp add: parse_fields_def)


lemma field_issues_Nil:
  "field_issues (parse_fields shape raw) = [] =
     (\<forall>(k, sch) \<in> set shape. fst (zparse sch (jsget raw k)) = [])"
proof (induction shape)
  case Nil
  then show ?case by (simp add: parse_fields_Nil field_issues_Nil_list)
next
  case (Cons a shape)
  obtain k' sch' where a: "a = (k', sch')" by (cases a)
  show ?case
    unfolding a parse_fields_Cons field_issues_Cons using Cons.IH by auto
qed

lemma mergeObject_None:
  "mergeObject raw pairs = None = (\<exists>(k, r) \<in> set pairs. snd r = None)"
  by (induction pairs) (auto split: option.splits)

lemma mergeObject_keys:
  "mergeObject raw pairs = Some out \<Longrightarrow> set (map fst out) \<subseteq> set (map fst pairs)"
proof (induction pairs arbitrary: out)
  case Nil
  then show ?case by simp
next
  case (Cons p pairs)
  obtain k r where p: "p = (k, r)" by (cases p)
  from Cons.prems p obtain v out' where
    v: "snd r = Some v" and o: "mergeObject raw pairs = Some out'"
    and out: "out = (if v \<noteq> JUndefined \<or> has_key raw k then (k, v) # out' else out')"
    by (auto split: option.splits)
  from Cons.IH [OF o] out p show ?case by auto
qed

lemma mergeObject_lookup:
  "mergeObject raw pairs = Some out \<Longrightarrow> distinct (map fst pairs) \<Longrightarrow> (k, r) \<in> set pairs \<Longrightarrow>
   snd r = Some (jsget (JObj out) k)"
proof (induction pairs arbitrary: out)
  case Nil
  then show ?case by simp
next
  case (Cons p pairs)
  obtain k' r' where p: "p = (k', r')" by (cases p)
  from Cons.prems(1) p obtain v out' where
    v: "snd r' = Some v" and o: "mergeObject raw pairs = Some out'"
    and out: "out = (if v \<noteq> JUndefined \<or> has_key raw k' then (k', v) # out' else out')"
    by (auto split: option.splits)
  from Cons.prems(2) p have d: "distinct (map fst pairs)" and nk: "k' \<notin> set (map fst pairs)"
    by simp_all
  from mergeObject_keys [OF o] nk have nk': "k' \<notin> set (map fst out')" by blast
  then have none: "map_of out' k' = None"
    by (simp add: map_of_eq_None_iff)
  show ?case
  proof (cases "(k, r) = (k', r')")
    case True
    then show ?thesis using v out none by auto
  next
    case False
    with Cons.prems(3) p have m: "(k, r) \<in> set pairs" by auto
    then have "k \<in> set (map fst pairs)" by force
    with nk have "k \<noteq> k'" by blast
    with Cons.IH [OF o d m] out show ?thesis by auto
  qed
qed

lemma parse_fields_keys: "map fst (parse_fields shape raw) = map fst shape"
  by (induction shape) (auto simp: parse_fields_def)

lemma parse_fields_mem:
  "(k, sch) \<in> set shape \<Longrightarrow> (k, zparse sch (jsget raw k)) \<in> set (parse_fields shape raw)"
  by (force simp: parse_fields_def)

text \<open>The parse of an object whose fields all have a value.\<close>

lemma zobject_value:
  assumes "zobject shape raw = (iss, Some v)" and "distinct (map fst shape)" and "(k, sch) \<in> set shape"
  shows "snd (zparse sch (jsget raw k)) = Some (jsget v k)"
proof -
  from assms(1) obtain kvs where raw: "raw = JObj kvs"
    by (cases raw) (simp_all add: zobject_def)
  from assms(1) raw obtain out where
    o: "mergeObject raw (parse_fields shape raw) = Some out" and v: "v = JObj out"
    by (auto simp: zobject_def Let_def)
  from mergeObject_lookup [OF o _ parse_fields_mem [OF assms(3)]] assms(2) v
  show ?thesis by (simp add: parse_fields_keys)
qed

lemma zobject_issues:
  "zobject shape (JObj kvs) = (field_issues (parse_fields shape (JObj kvs)),
     map_option JObj (mergeObject (JObj kvs) (parse_fields shape (JObj kvs))))"
  by (simp add: zobject_def Let_def)

lemma zobject_clean:
  assumes "fst (zobject shape raw) = []"
  shows "\<exists>out. zobject shape raw = ([], Some (JObj out))"
proof -
  from assms obtain kvs where raw: "raw = JObj kvs"
    by (cases raw) (simp_all add: zobject_def)
  from assms raw have fi: "field_issues (parse_fields shape raw) = []"
    by (simp add: zobject_issues)
  have "mergeObject raw (parse_fields shape raw) \<noteq> None"
  proof
    assume "mergeObject raw (parse_fields shape raw) = None"
    then obtain k r where m: "(k, r) \<in> set (parse_fields shape raw)" and n: "snd r = None"
      by (auto simp: mergeObject_None)
    from m obtain sch where s: "(k, sch) \<in> set shape" and r: "r = zparse sch (jsget raw k)"
      by (auto simp: parse_fields_def)
    from fi s have "fst (zparse sch (jsget raw k)) = []"
      by (auto simp: field_issues_Nil)
    with zparse_aborted [of sch "jsget raw k"] n r show False by simp
  qed
  then obtain out where "mergeObject raw (parse_fields shape raw) = Some out" by blast
  with fi raw show ?thesis by (simp add: zobject_issues)
qed

lemma zobject_clean_field:
  assumes "zobject shape raw = ([], Some v)" and "distinct (map fst shape)" and "(k, sch) \<in> set shape"
  shows "zparse sch (jsget raw k) = ([], Some (jsget v k))"
proof -
  from assms(1) obtain kvs where raw: "raw = JObj kvs"
    by (cases raw) (simp_all add: zobject_def)
  from assms(1) raw have "field_issues (parse_fields shape raw) = []"
    by (simp add: zobject_issues)
  with assms(3) have "fst (zparse sch (jsget raw k)) = []"
    by (auto simp: field_issues_Nil)
  with zobject_value [OF assms] show ?thesis
    by (simp add: prod_eq_iff)
qed

lemma distinct_shape: "distinct (map fst clearHeatSchema_shape)"
  by (simp add: clearHeatSchema_shape_def)

lemma clearHeatSchema_result:
  "clearHeatSchema raw =
     (case zobject clearHeatSchema_shape raw of
        (iss, None) \<Rightarrow> (iss, None)
      | (iss, Some v) \<Rightarrow> (iss @ bill_mode_refinement v, Some v))"
  by (simp add: clearHeatSchema_def superRefine_def)

lemma shape_bill_mode:
  "(''bill_mode'', ZDefault (JStr ''annual_spend'') (ZEnum [''annual_fuel_use'', ''annual_spend'', ''none'']))
     \<in> set clearHeatSchema_shape"
  by (simp add: clearHeatSchema_shape_def)

lemma shape_annual_fuel_use:
  "(''annual_fuel_use'', ZOptional (ZNumber True [CMin 0])) \<in> set clearHeatSchema_shape"
  by (simp add: clearHeatSchema_shape_def)

lemma shape_annual_spend_eur:
  "(''annual_spend_eur'', ZOptional (ZNumber True [CMin 0])) \<in> set clearHeatSchema_shape"
  by (simp add: clearHeatSchema_shape_def)

text \<open>
  C2. The raw input is an object whose fields are all valid on their own: the parse of the
  object raises no issue. If its bill mode is \<open>annual_spend\<close> and it has no
  \<open>annual_spend_eur\<close>, validation fails with the one issue of the rule, at the path
  \<open>annual_spend_eur\<close>; likewise for \<open>annual_fuel_use\<close>; and if its bill mode is \<open>none\<close>,
  validation succeeds, whether the two amounts are there or not.
\<close>

theorem bill_mode_rule:
  assumes "fst (zobject clearHeatSchema_shape raw) = []"
  shows "(jsget raw ''bill_mode'' = JStr ''annual_spend'' \<and> jsget raw ''annual_spend_eur'' = JUndefined \<longrightarrow>
            safeParse clearHeatSchema raw =
              Failure [Issue [''annual_spend_eur''] (custom ''Required when bill mode is annual spend.'')])
       \<and> (jsget raw ''bill_mode'' = JStr ''annual_fuel_use'' \<and> jsget raw ''annual_fuel_use'' = JUndefined \<longrightarrow>
            safeParse clearHeatSchema raw =
              Failure [Issue [''annual_fuel_use''] (custom ''Required when bill mode is annual fuel use.'')])
       \<and> (jsget raw ''bill_mode'' = JStr ''none'' \<longrightarrow> (\<exists>v. safeParse clearHeatSchema raw = Success v))"
proof -
  from zobject_clean [OF assms] obtain out where
    z: "zobject clearHeatSchema_shape raw = ([], Some (JObj out))" by blast
  note f = zobject_clean_field [OF z distinct_shape]
  have r: "safeParse clearHeatSchema raw =
      (case bill_mode_refinement (JObj out) of [] \<Rightarrow> Success (JObj out) | i # iss \<Rightarrow> Failure (i # iss))"
    by (simp add: safeParse_def clearHeatSchema_result z split: list.splits)
  have a: "safeParse clearHeatSchema raw =
        Failure [Issue [''annual_spend_eur''] (custom ''Required when bill mode is annual spend.'')]"
    if t: "jsget raw ''bill_mode'' = JStr ''annual_spend''" "jsget raw ''annual_spend_eur'' = JUndefined"
  proof -
    have "jsget (JObj out) ''bill_mode'' = JStr ''annual_spend''"
      using f [OF shape_bill_mode] t(1) by (simp del: jsget.simps)
    moreover have "jsget (JObj out) ''annual_spend_eur'' = JUndefined"
      using f [OF shape_annual_spend_eur] t(2) by (simp del: jsget.simps)
    ultimately show ?thesis
      by (simp add: r bill_mode_refinement_def del: jsget.simps)
  qed
  have b: "safeParse clearHeatSchema raw =
        Failure [Issue [''annual_fuel_use''] (custom ''Required when bill mode is annual fuel use.'')]"
    if t: "jsget raw ''bill_mode'' = JStr ''annual_fuel_use''" "jsget raw ''annual_fuel_use'' = JUndefined"
  proof -
    have "jsget (JObj out) ''bill_mode'' = JStr ''annual_fuel_use''"
      using f [OF shape_bill_mode] t(1) by (simp del: jsget.simps)
    moreover have "jsget (JObj out) ''annual_fuel_use'' = JUndefined"
      using f [OF shape_annual_fuel_use] t(2) by (simp del: jsget.simps)
    ultimately show ?thesis
      by (simp add: r bill_mode_refinement_def del: jsget.simps)
  qed
  have c: "\<exists>v. safeParse clearHeatSchema raw = Success v"
    if t: "jsget raw ''bill_mode'' = JStr ''none''"
  proof -
    have "jsget (JObj out) ''bill_mode'' = JStr ''none''"
      using f [OF shape_bill_mode] t by (simp del: jsget.simps)
    then show ?thesis
      by (simp add: r bill_mode_refinement_def del: jsget.simps)
  qed
  from a b c show ?thesis by blast
qed

theorem bill_mode_rule_witness:
  "fst (zobject clearHeatSchema_shape spend_missing) = []
   \<and> jsget spend_missing ''bill_mode'' = JStr ''annual_spend''
   \<and> jsget spend_missing ''annual_spend_eur'' = JUndefined
   \<and> safeParse clearHeatSchema spend_missing =
       Failure [Issue [''annual_spend_eur''] (custom ''Required when bill mode is annual spend.'')]
   \<and> fst (zobject clearHeatSchema_shape fuel_use_missing) = []
   \<and> jsget fuel_use_missing ''bill_mode'' = JStr ''annual_fuel_use''
   \<and> jsget fuel_use_missing ''annual_fuel_use'' = JUndefined
   \<and> safeParse clearHeatSchema fuel_use_missing =
       Failure [Issue [''annual_fuel_use''] (custom ''Required when bill mode is annual fuel use.'')]
   \<and> fst (zobject clearHeatSchema_shape no_bills) = []
   \<and> jsget no_bills ''bill_mode'' = JStr ''none''
   \<and> (\<exists>v. safeParse clearHeatSchema no_bills = Success v)
   \<and> fst (zobject clearHeatSchema_shape no_bill_mode_with_spend) = []
   \<and> jsget no_bill_mode_with_spend ''bill_mode'' = JStr ''none''
   \<and> (\<exists>v. safeParse clearHeatSchema no_bill_mode_with_spend = Success v)"
proof -
  have h1: "fst (zobject clearHeatSchema_shape spend_missing) = []" by code_simp
  have a1: "jsget spend_missing ''bill_mode'' = JStr ''annual_spend''" by code_simp
  have b1: "jsget spend_missing ''annual_spend_eur'' = JUndefined" by code_simp
  have h2: "fst (zobject clearHeatSchema_shape fuel_use_missing) = []" by code_simp
  have a2: "jsget fuel_use_missing ''bill_mode'' = JStr ''annual_fuel_use''" by code_simp
  have b2: "jsget fuel_use_missing ''annual_fuel_use'' = JUndefined" by code_simp
  have h3: "fst (zobject clearHeatSchema_shape no_bills) = []" by code_simp
  have a3: "jsget no_bills ''bill_mode'' = JStr ''none''" by code_simp
  have h4: "fst (zobject clearHeatSchema_shape no_bill_mode_with_spend) = []" by code_simp
  have a4: "jsget no_bill_mode_with_spend ''bill_mode'' = JStr ''none''" by code_simp
  from bill_mode_rule [OF h1] bill_mode_rule [OF h2] bill_mode_rule [OF h3] bill_mode_rule [OF h4]
    h1 a1 b1 h2 a2 b2 h3 a3 h4 a4
  show ?thesis by blast
qed

lemma pre_occupants_accepts:
  "accepts clearHeatSchema_pre_shape ''occupants'' (JNum n) = (\<exists>i::int. 1 \<le> i \<and> i \<le> 20 \<and> n = Fin (of_int i))"
proof (cases n)
  case (Fin q)
  then have "accepts clearHeatSchema_pre_shape ''occupants'' (JNum n) = (q = rat_of_int \<lfloor>q\<rfloor> \<and> 1 \<le> q \<and> q \<le> 20)"
    by (auto simp add: accepts_def parse_field_def clearHeatSchema_pre_shape_def not_less)
  then show ?thesis
    using Fin by (simp only: int_in_range jsnum.inject)
qed (simp_all add: accepts_def parse_field_def clearHeatSchema_pre_shape_def)

lemma pre_floor_area_accepts:
  "accepts clearHeatSchema_pre_shape ''floor_area_m2'' (JNum n) = (\<exists>q. 20 \<le> q \<and> q \<le> 1000 \<and> n = Fin q)"
  by (cases n) (auto simp add: accepts_def parse_field_def clearHeatSchema_pre_shape_def num_def not_less)

lemma occupants_examples:
  "\<not> accepts clearHeatSchema_shape ''occupants'' (JNum (Fin 0))"
  "\<not> accepts clearHeatSchema_shape ''occupants'' (JNum (Fin 21))"
  "\<not> accepts clearHeatSchema_shape ''occupants'' (JNum (Fin (5 / 2)))"
  "accepts clearHeatSchema_shape ''occupants'' (JNum (Fin 1))"
  "accepts clearHeatSchema_shape ''occupants'' (JNum (Fin 20))"
  by code_simp+

lemma floor_area_examples:
  "\<not> accepts clearHeatSchema_shape ''floor_area_m2'' (JNum (Fin 19))"
  "\<not> accepts clearHeatSchema_shape ''floor_area_m2'' (JNum (Fin 1001))"
  "accepts clearHeatSchema_shape ''floor_area_m2'' (JNum (Fin 20))"
  "accepts clearHeatSchema_shape ''floor_area_m2'' (JNum (Fin 1000))"
  by code_simp+

text \<open>
  C5. Of the numbers, \<open>occupants\<close> accepts exactly the integers from 1 to 20 and
  \<open>floor_area_m2\<close> exactly the numbers from 20 to 1000, in both versions of the schema;
  in the schema of \<open>lib/schema.ts\<close> a raw value of another type is accepted exactly when
  \<open>Number\<close> converts it to such a number. So 0, 21 and 2.5 occupants are rejected, 1 and
  20 accepted; an area of 19 or 1001 is rejected, 20 and 1000 accepted.
\<close>

theorem occupants_and_floor_area_bounds:
  "accepts clearHeatSchema_shape ''occupants'' (JNum n) = (\<exists>i::int. 1 \<le> i \<and> i \<le> 20 \<and> n = Fin (of_int i))
   \<and> accepts clearHeatSchema_shape ''floor_area_m2'' (JNum n) = (\<exists>q. 20 \<le> q \<and> q \<le> 1000 \<and> n = Fin q)
   \<and> accepts clearHeatSchema_shape ''occupants'' v = (\<exists>i::int. 1 \<le> i \<and> i \<le> 20 \<and> toNumber v = Fin (of_int i))
   \<and> accepts clearHeatSchema_shape ''floor_area_m2'' v = (\<exists>q. 20 \<le> q \<and> q \<le> 1000 \<and> toNumber v = Fin q)
   \<and> accepts clearHeatSchema_pre_shape ''occupants'' (JNum n) = (\<exists>i::int. 1 \<le> i \<and> i \<le> 20 \<and> n = Fin (of_int i))
   \<and> accepts clearHeatSchema_pre_shape ''floor_area_m2'' (JNum n) = (\<exists>q. 20 \<le> q \<and> q \<le> 1000 \<and> n = Fin q)
   \<and> \<not> accepts clearHeatSchema_shape ''occupants'' (JNum (Fin 0))
   \<and> \<not> accepts clearHeatSchema_shape ''occupants'' (JNum (Fin 21))
   \<and> \<not> accepts clearHeatSchema_shape ''occupants'' (JNum (Fin (5 / 2)))
   \<and> accepts clearHeatSchema_shape ''occupants'' (JNum (Fin 1))
   \<and> accepts clearHeatSchema_shape ''occupants'' (JNum (Fin 20))
   \<and> \<not> accepts clearHeatSchema_shape ''floor_area_m2'' (JNum (Fin 19))
   \<and> \<not> accepts clearHeatSchema_shape ''floor_area_m2'' (JNum (Fin 1001))
   \<and> accepts clearHeatSchema_shape ''floor_area_m2'' (JNum (Fin 20))
   \<and> accepts clearHeatSchema_shape ''floor_area_m2'' (JNum (Fin 1000))"
  using occupants_accepts [of "JNum n"] floor_area_accepts [of "JNum n"]
    occupants_accepts [of v] floor_area_accepts [of v]
    pre_occupants_accepts [of n] pre_floor_area_accepts [of n]
    occupants_examples floor_area_examples
  by (simp only: toNumber.simps simp_thms)

subsection \<open>The mock endpoint\<close>

lemma POST_cases:
  "POST json =
     (case safeParse clearHeatSchema json of
        Failure iss \<Rightarrow> \<lparr>resp_status = 400, resp_body = ErrorBody ''Invalid input'' (flatten iss)\<rparr>
      | Success data \<Rightarrow> \<lparr>resp_status = 200, resp_body = JsonBody (mock_payload data)\<rparr>)"
  by (simp add: POST_def)

lemma mock_payload_fields:
  "jsget (mock_payload d) ''verdict'' = JStr ''LIKELY''"
  "jsget (mock_payload d) ''confidence'' = JNum (Fin (78 / 100))"
  "jsget (mock_payload d) ''annual_savings_eur'' = JArr [JNum (Fin 300), JNum (Fin 900)]"
  "jsget (mock_payload d) ''payback_years'' = JArr [JNum (Fin 8), JNum (Fin 14)]"
  "jsget (mock_payload d) ''assumptions'' =
     JArr [JStr ''Electricity price held constant in real terms'',
           JStr ''Typical seasonal efficiency assumed for system type and emitters'',
           JStr ''No fabric upgrades included unless stated'']"
  "jsget (mock_payload d) ''pdf_url'' = JNull"
  "jsget (mock_payload d) ''notes'' =
     JArr [JStr (if toBoolean (jsget d ''annual_spend_eur'')
                 then ''Annual spend provided: confidence increased.''
                 else ''Annual spend missing: results rely on typical consumption estimates.'')]"
  by (simp_all add: mock_payload_def)

lemma mock_payload_other: "k \<noteq> ''notes'' \<Longrightarrow> jsget (mock_payload d) k = jsget (mock_payload d') k"
  by (simp add: mock_payload_def)

text \<open>
  C8 (as amended). When validation of the body fails, the endpoint answers 400 with the
  error \<open>Invalid input\<close> and the flattened issues as details. When it succeeds, it
  answers 200 with a payload of the seven keys \<open>verdict\<close>, \<open>confidence\<close>,
  \<open>annual_savings_eur\<close>, \<open>payback_years\<close>, \<open>assumptions\<close>, \<open>notes\<close> and \<open>pdf_url\<close>.
  All but \<open>notes\<close> are the same for every input; \<open>notes\<close> is one sentence, chosen by
  whether the validated \<open>annual_spend_eur\<close> is there and not zero.
\<close>

theorem evaluate_endpoint:
  "(safeParse clearHeatSchema json = Failure iss \<longrightarrow>
      POST json = \<lparr>resp_status = 400, resp_body = ErrorBody ''Invalid input'' (flatten iss)\<rparr>)
   \<and> (safeParse clearHeatSchema json = Success d \<longrightarrow>
        POST json = \<lparr>resp_status = 200, resp_body = JsonBody (mock_payload d)\<rparr>)
   \<and> (k \<noteq> ''notes'' \<longrightarrow> jsget (mock_payload d) k = jsget (mock_payload d') k)
   \<and> map fst (case mock_payload d of JObj kvs \<Rightarrow> kvs | _ \<Rightarrow> []) =
        [''verdict'', ''confidence'', ''annual_savings_eur'', ''payback_years'', ''assumptions'',
         ''notes'', ''pdf_url'']
   \<and> jsget (mock_payload d) ''verdict'' = JStr ''LIKELY''
   \<and> jsget (mock_payload d) ''confidence'' = JNum (Fin (78 / 100))
   \<and> jsget (mock_payload d) ''annual_savings_eur'' = JArr [JNum (Fin 300), JNum (Fin 900)]
   \<and> jsget (mock_payload d) ''payback_years'' = JArr [JNum (Fin 8), JNum (Fin 14)]
   \<and> jsget (mock_payload d) ''assumptions'' =
        JArr [JStr ''Electricity price held constant in real terms'',
              JStr ''Typical seasonal efficiency assumed for system type and emitters'',
              JStr ''No fabric upgrades included unless stated'']
   \<and> jsget (mock_payload d) ''pdf_url'' = JNull
   \<and> jsget (mock_payload d) ''notes'' =
        JArr [JStr (if toBoolean (jsget d ''annual_spend_eur'')
                    then ''Annual spend provided: confidence increased.''
                    else ''Annual spend missing: results rely on typical consumption estimates.'')]"
proof -
  have a: "safeParse clearHeatSchema json = Failure iss \<longrightarrow>
      POST json = \<lparr>resp_status = 400, resp_body = ErrorBody ''Invalid input'' (flatten iss)\<rparr>"
    by (simp add: POST_cases)
  have b: "safeParse clearHeatSchema json = Success d \<longrightarrow>
        POST json = \<lparr>resp_status = 200, resp_body = JsonBody (mock_payload d)\<rparr>"
    by (simp add: POST_cases)
  have c: "k \<noteq> ''notes'' \<longrightarrow> jsget (mock_payload d) k = jsget (mock_payload d') k"
    using mock_payload_other by blast
  have e: "map fst (case mock_payload d of JObj kvs \<Rightarrow> kvs | _ \<Rightarrow> []) =
        [''verdict'', ''confidence'', ''annual_savings_eur'', ''payback_years'', ''assumptions'',
         ''notes'', ''pdf_url'']"
    by (simp add: mock_payload_def)
  from a b c e mock_payload_fields [of d] show ?thesis by blast
qed

theorem evaluate_endpoint_witness:
  "safeParse clearHeatSchema defaultValues = Success defaultValues
   \<and> POST defaultValues = \<lparr>resp_status = 200, resp_body = JsonBody (mock_payload defaultValues)\<rparr>
   \<and> safeParse clearHeatSchema (JArr []) = Failure [Issue [] (invalid_type ''object'' ''array'')]
   \<and> POST (JArr []) =
       \<lparr>resp_status = 400,
        resp_body = ErrorBody ''Invalid input''
          \<lparr>formErrors = [invalid_type ''object'' ''array''], fieldErrors = []\<rparr>\<rparr>
   \<and> ''verdict'' \<noteq> ''notes''
   \<and> jsget (mock_payload defaultValues) ''verdict'' = jsget (mock_payload no_bills) ''verdict''"
proof -
  have f: "safeParse clearHeatSchema (JArr []) = Failure [Issue [] (invalid_type ''object'' ''array'')]"
    by code_simp
  have fl: "flatten [Issue [] (invalid_type ''object'' ''array'')] =
      \<lparr>formErrors = [invalid_type ''object'' ''array''], fieldErrors = []\<rparr>"
    by (simp add: flatten_def)
  have n: "''verdict'' \<noteq> ''notes''" by simp
  from evaluate_endpoint [of defaultValues "[]" defaultValues "''verdict''" no_bills]
    evaluate_endpoint [of "JArr []" "[Issue [] (invalid_type ''object'' ''array'')]" defaultValues "''verdict''" no_bills]
    defaultValues_valid f fl n
  show ?thesis by simp
qed

text \<open>
  The claim as stated fails: the default values and the input with no bills are both
  valid, and their payloads differ (in \<open>notes\<close>).
\<close>

theorem payload_depends_on_input:
  "resp_status (POST defaultValues) = 200 \<and> resp_status (POST no_bills) = 200
   \<and> resp_body (POST defaultValues) \<noteq> resp_body (POST no_bills)"
  by code_simp

subsection \<open>Issues of a field and the outcome\<close>


subsection \<open>Strings and numbers\<close>












































lemma number_value_issues:
  "zparse sch v = (iss, Some (JNum n)) \<Longrightarrow> iss = concat (map (run_check n) (checks_of sch))"
proof (induction sch arbitrary: v)
  case (ZEnum options)
  then show ?case by (cases v) (auto split: if_splits)
next
  case (ZNumber coerce checks)
  then show ?case by (auto simp: Let_def split: if_splits jsval.splits)
next
  case (ZBoolean coerce)
  then show ?case by (auto simp: Let_def split: if_splits jsval.splits)
next
  case (ZOptional sch)
  then show ?case by (cases "v = JUndefined") auto
next
  case (ZDefault d sch)
  then show ?case by simp
next
  case (ZPreprocess f sch)
  then show ?case by simp
qed






















subsection \<open>The outcome of validation\<close>

















end
